theory Spec2Isabelle
  imports Main
begin

section \<open>The mailer of server/mailer.js\<close>

text \<open>
  The module exports one class, \<open>Mailer\<close>, with a single field \<open>transporter\<close>, the
  asynchronous methods \<open>loadTransport\<close>, \<open>sendMail\<close>, \<open>sendTemplate\<close> and one dispatcher
  per kind of email. Everything the methods do beyond returning is a call into an imported
  module (nodemailer, oy-vey, Sentry, debug, the queue) or a write to \<open>this.transporter\<close>.
  The model makes both explicit: each method takes the imports, the environment and the
  mailer, and returns how its promise settles, the mailer afterwards where it is written,
  and the list of calls it made, in order.
\<close>

subsection \<open>Strings, the environment, errors and promises\<close>

text \<open>
  A string is the list of the bytes of its UTF-8 encoding, so that two JavaScript strings
  are equal exactly when their models are. The source uses four characters outside ASCII:
  U+2019 (right single quotation mark), U+201C and U+201D (double quotation marks) and
  U+2026 (horizontal ellipsis).
\<close>

definition rsquo :: string where
  \<open>rsquo = [CHR 0xE2, CHR 0x80, CHR 0x99]\<close>

definition ldquo :: string where
  \<open>ldquo = [CHR 0xE2, CHR 0x80, CHR 0x9C]\<close>

definition rdquo :: string where
  \<open>rdquo = [CHR 0xE2, CHR 0x80, CHR 0x9D]\<close>

definition hellip :: string where
  \<open>hellip = [CHR 0xE2, CHR 0x80, CHR 0xA6]\<close>

text \<open>
  \<open>process.env\<close> maps names to strings; a name that is not set reads as \<open>undefined\<close>,
  here \<open>None\<close>. The source tests a variable in two ways: by truthiness
  (\<open>if (process.env.SMTP_HOST)\<close>, \<open>a || b\<close>, \<open>!a\<close>), which the empty string fails, and
  by presence (\<open>"SMTP_SECURE" in process.env\<close>), which the empty string passes.
\<close>

type_synonym env = \<open>string \<rightharpoonup> string\<close>

definition truthy :: \<open>string option \<Rightarrow> bool\<close> where
  \<open>truthy v = (case v of None \<Rightarrow> False | Some s \<Rightarrow> s \<noteq> [])\<close>

definition or_else :: \<open>string option \<Rightarrow> string option \<Rightarrow> string option\<close> where
  \<open>or_else a b = (if truthy a then a else b)\<close>

definition present :: \<open>string \<Rightarrow> env \<Rightarrow> bool\<close> where
  \<open>present k e = (case e k of None \<Rightarrow> False | Some s \<Rightarrow> True)\<close>

datatype exn = Error (message: string)

datatype 'a promise = Resolved 'a | Rejected exn

subsection \<open>Transport configuration\<close>

datatype port_value = PortString string | PortNumber nat

record smtp_auth =
  user :: string
  pass :: \<open>string option\<close>

record smtp_tls =
  ciphers :: string

record smtp_config =
  host :: string
  port :: \<open>port_value option\<close>
  secure :: bool
  auth :: \<open>smtp_auth option\<close>
  tls :: \<open>smtp_tls option\<close>

record test_account =
  account_user :: string
  account_pass :: string

subsection \<open>Messages\<close>

text \<open>
  The options of the dispatchers. The property types of the invite, document and
  collection emails are declared in the template modules; the records hold the fields
  that this module reads. \<open>welcome\<close> and \<open>exportFailure\<close> take the same shape.
\<close>

record team_opts =
  t_to :: string
  t_teamUrl :: string

record export_success_opts =
  es_to :: string
  es_id :: string
  es_teamUrl :: string

record invite_opts =
  i_to :: string
  actorName :: string
  teamName :: string

record signin_opts =
  s_to :: string
  s_token :: string
  s_teamUrl :: string

record document_notification_opts =
  d_to :: string
  document_title :: string
  d_actor_name :: string
  d_eventName :: string

record collection_notification_opts =
  c_to :: string
  collection_name :: string
  c_actor_name :: string
  c_eventName :: string

text \<open>A JSX expression builds an element: the component and its properties.\<close>

datatype element =
    WelcomeEmail team_opts
  | ExportSuccessEmail string string
  | ExportFailureEmail string
  | InviteEmail invite_opts
  | SigninEmail signin_opts
  | DocumentNotificationEmail document_notification_opts
  | CollectionNotificationEmail collection_notification_opts

text \<open>
  \<open>EmailSendOptions\<close>. Its optional field \<open>properties\<close> is neither written nor read by
  any method of the class and is left out.
\<close>

record email_send_options =
  data_to :: string
  title :: string
  previewText :: \<open>string option\<close>
  data_text :: string
  data_html :: element
  headCSS :: \<open>string option\<close>

record render_options =
  oy_title :: string
  oy_headCSS :: string
  oy_previewText :: \<open>string option\<close>

record envelope =
  mail_from :: \<open>string option\<close>
  mail_replyTo :: \<open>string option\<close>
  mail_to :: string
  mail_subject :: string
  mail_html :: string
  mail_text :: string

datatype info = Info string

subsection \<open>The queue\<close>

type_synonym jsobject = \<open>(string \<times> string) list\<close>

record job =
  job_type :: string
  job_opts :: jsobject

record backoff_options =
  backoff_type :: string
  delay :: nat

record job_options =
  attempts :: nat
  removeOnComplete :: bool
  backoff :: backoff_options

subsection \<open>Imports and effects\<close>

text \<open>
  A transport is what \<open>nodemailer.createTransport\<close> returns: an object whose \<open>sendMail\<close>
  takes an envelope and either raises or returns the send information.
\<close>

type_synonym transport = \<open>envelope \<Rightarrow> exn + info\<close>

text \<open>
  What the module imports and does not define. Calls that can raise return a sum, with
  \<open>Inl\<close> the exception. The text templates and \<open>baseStyles\<close> come from the template
  modules; \<open>emailsQueue_add\<close> is the \<open>add\<close> method of the queue.
\<close>

record imported =
  createTransport :: \<open>smtp_config \<Rightarrow> exn + transport\<close>
  createTestAccount :: \<open>exn + test_account\<close>
  getTestMessageUrl :: \<open>info \<Rightarrow> string\<close>
  renderTemplate :: \<open>element \<Rightarrow> render_options \<Rightarrow> exn + string\<close>
  baseStyles :: string
  welcomeEmailText :: \<open>team_opts \<Rightarrow> string\<close>
  exportEmailSuccessText :: string
  exportEmailFailureText :: string
  inviteEmailText :: \<open>invite_opts \<Rightarrow> string\<close>
  signinEmailText :: \<open>signin_opts \<Rightarrow> string\<close>
  documentNotificationEmailText :: \<open>document_notification_opts \<Rightarrow> string\<close>
  collectionNotificationEmailText :: \<open>collection_notification_opts \<Rightarrow> string\<close>
  emailsQueue_add :: \<open>job \<Rightarrow> job_options \<Rightarrow> exn + unit\<close>

text \<open>The calls a method makes into the imports, as they are observed from outside.\<close>

datatype event =
    Log string
  | CreateTestAccount
  | CreateTransport smtp_config
  | RenderTemplate element render_options
  | TransportSendMail envelope
  | CaptureException exn
  | QueueAdd job job_options

record mailer =
  transporter :: \<open>transport option\<close>

section \<open>The methods\<close>

subsection \<open>loadTransport\<close>

text \<open>
  The module constant \<open>useTestEmailService\<close> is computed from \<open>process.env\<close> when the
  module is loaded; the model reads one environment throughout.
\<close>

definition useTestEmailService :: \<open>env \<Rightarrow> bool\<close> where
  \<open>useTestEmailService e =
     (e ''NODE_ENV'' = Some ''development'' \<and> \<not> truthy (e ''SMTP_USERNAME''))\<close>

text \<open>
  The configuration object of the first branch, for the host \<open>h\<close> read from \<open>SMTP_HOST\<close>,
  after the assignment to its \<open>auth\<close> field.
\<close>

definition smtpConfig :: \<open>env \<Rightarrow> string \<Rightarrow> smtp_config\<close> where
  \<open>smtpConfig e h =
     \<lparr> host = h,
       port = map_option PortString (e ''SMTP_PORT''),
       secure = (if present ''SMTP_SECURE'' e then e ''SMTP_SECURE'' = Some ''true''
                 else e ''NODE_ENV'' = Some ''production''),
       auth = (case e ''SMTP_USERNAME'' of
                 None \<Rightarrow> None
               | Some u \<Rightarrow> if u \<noteq> [] then Some \<lparr> user = u, pass = e ''SMTP_PASSWORD'' \<rparr>
                           else None),
       tls = (case e ''SMTP_TLS_CIPHERS'' of
                None \<Rightarrow> None
              | Some c \<Rightarrow> Some \<lparr> ciphers = c \<rparr>) \<rparr>\<close>

definition testConfig :: \<open>test_account \<Rightarrow> smtp_config\<close> where
  \<open>testConfig a =
     \<lparr> host = ''smtp.ethereal.email'',
       port = Some (PortNumber 587),
       secure = False,
       auth = Some \<lparr> user = account_user a, pass = Some (account_pass a) \<rparr>,
       tls = None \<rparr>\<close>

text \<open>The second \<open>if\<close> of \<open>loadTransport\<close>, reached when \<open>SMTP_HOST\<close> is not truthy.\<close>

definition loadTestTransport ::
  \<open>imported \<Rightarrow> env \<Rightarrow> mailer \<Rightarrow> unit promise \<times> mailer \<times> event list\<close> where
  \<open>loadTestTransport I e m =
     (if useTestEmailService e then
        (let started = [Log (''SMTP_USERNAME not provided, generating test account'' @ hellip),
                        CreateTestAccount]
         in case createTestAccount I of
              Inl err \<Rightarrow>
                (Resolved (), m,
                 started @ [Log (''Could not generate test account: '' @ message err)])
            | Inr a \<Rightarrow>
                (case createTransport I (testConfig a) of
                   Inl err \<Rightarrow>
                     (Resolved (), m,
                      started @ [CreateTransport (testConfig a),
                                 Log (''Could not generate test account: '' @ message err)])
                 | Inr t \<Rightarrow>
                     (Resolved (), m\<lparr>transporter := Some t\<rparr>,
                      started @ [CreateTransport (testConfig a)])))
      else (Resolved (), m, []))\<close>

definition loadTransport ::
  \<open>imported \<Rightarrow> env \<Rightarrow> mailer \<Rightarrow> unit promise \<times> mailer \<times> event list\<close> where
  \<open>loadTransport I e m =
     (case e ''SMTP_HOST'' of
        None \<Rightarrow> loadTestTransport I e m
      | Some h \<Rightarrow>
          if h \<noteq> [] then
            (case createTransport I (smtpConfig e h) of
               Inl err \<Rightarrow> (Rejected err, m, [CreateTransport (smtpConfig e h)])
             | Inr t \<Rightarrow>
                 (Resolved (), m\<lparr>transporter := Some t\<rparr>, [CreateTransport (smtpConfig e h)]))
          else loadTestTransport I e m)\<close>

text \<open>
  The constructor starts \<open>loadTransport\<close> on a mailer whose transporter is not set and
  does not wait for it. \<open>Mailer\<close> gives the mailer once that call has settled; while the
  test account is still being created the transporter of the real object is unset.
\<close>

definition Mailer :: \<open>imported \<Rightarrow> env \<Rightarrow> unit promise \<times> mailer \<times> event list\<close> where
  \<open>Mailer I e = loadTransport I e \<lparr> transporter = None \<rparr>\<close>

subsection \<open>sendMail\<close>

text \<open>
  \<open>[baseStyles, data.headCSS].join(" ")\<close>: \<open>join\<close> writes an undefined element as the
  empty string.
\<close>

definition joinCSS :: \<open>string \<Rightarrow> string option \<Rightarrow> string\<close> where
  \<open>joinCSS base css = base @ '' '' @ (case css of None \<Rightarrow> [] | Some s \<Rightarrow> s)\<close>

definition renderOptions :: \<open>imported \<Rightarrow> email_send_options \<Rightarrow> render_options\<close> where
  \<open>renderOptions I d =
     \<lparr> oy_title = title d,
       oy_headCSS = joinCSS (baseStyles I) (headCSS d),
       oy_previewText = previewText d \<rparr>\<close>

definition mailEnvelope :: \<open>env \<Rightarrow> email_send_options \<Rightarrow> string \<Rightarrow> envelope\<close> where
  \<open>mailEnvelope e d html =
     \<lparr> mail_from = e ''SMTP_FROM_EMAIL'',
       mail_replyTo = or_else (e ''SMTP_REPLY_EMAIL'') (e ''SMTP_FROM_EMAIL''),
       mail_to = data_to d,
       mail_subject = title d,
       mail_html = html,
       mail_text = data_text d \<rparr>\<close>

definition sendMail ::
  \<open>imported \<Rightarrow> env \<Rightarrow> mailer \<Rightarrow> email_send_options \<Rightarrow> unit promise \<times> event list\<close> where
  \<open>sendMail I e m d =
     (case transporter m of
        None \<Rightarrow> (Resolved (), [])
      | Some t \<Rightarrow>
          (case renderTemplate I (data_html d) (renderOptions I d) of
             Inl err \<Rightarrow> (Rejected err, [RenderTemplate (data_html d) (renderOptions I d)])
           | Inr html \<Rightarrow>
               (let started =
                      [RenderTemplate (data_html d) (renderOptions I d),
                       Log (''Sending email "'' @ title d @ ''" to '' @ data_to d),
                       TransportSendMail (mailEnvelope e d html)]
                in case t (mailEnvelope e d html) of
                     Inr i \<Rightarrow>
                       (Resolved (),
                        started @
                        (if useTestEmailService e
                         then [Log (''Email Preview URL: '' @ getTestMessageUrl I i)]
                         else []))
                   | Inl err \<Rightarrow>
                       (Rejected err,
                        started @
                        (if truthy (e ''SENTRY_DSN'') then [CaptureException err]
                         else [])))))\<close>

subsection \<open>The dispatchers\<close>

text \<open>
  Each dispatcher is an \<open>async\<close> function whose body is the one statement
  \<open>this.sendMail({...});\<close>, neither awaited nor returned. Its result records how its own
  promise settles, how the promise of \<open>sendMail\<close>, which nobody holds, settles, and the
  calls made.
\<close>

record dispatch =
  returned :: \<open>unit promise\<close>
  detached :: \<open>unit promise\<close>
  effects :: \<open>event list\<close>

text \<open>
  The object literal that each dispatcher passes to \<open>sendMail\<close>, one definition per
  dispatcher, and then the dispatchers themselves. Template literals concatenate.
\<close>

definition welcomeMessage :: \<open>imported \<Rightarrow> team_opts \<Rightarrow> email_send_options\<close> where
  \<open>welcomeMessage I opts =
     \<lparr> data_to = t_to opts,
       title = ''Welcome to Outline'',
       previewText = Some ''Outline is a place for your team to build and share knowledge.'',
       data_text = welcomeEmailText I opts,
       data_html = WelcomeEmail opts,
       headCSS = None \<rparr>\<close>

definition exportSuccessMessage :: \<open>imported \<Rightarrow> export_success_opts \<Rightarrow> email_send_options\<close> where
  \<open>exportSuccessMessage I opts =
     \<lparr> data_to = es_to opts,
       title = ''Your requested export'',
       previewText = Some ''Here's your request data export from Outline'',
       data_text = exportEmailSuccessText I,
       data_html = ExportSuccessEmail (es_id opts) (es_teamUrl opts),
       headCSS = None \<rparr>\<close>

definition exportFailureMessage :: \<open>imported \<Rightarrow> team_opts \<Rightarrow> email_send_options\<close> where
  \<open>exportFailureMessage I opts =
     \<lparr> data_to = t_to opts,
       title = ''Your requested export'',
       previewText = Some ''Sorry, your requested data export has failed'',
       data_text = exportEmailFailureText I,
       data_html = ExportFailureEmail (t_teamUrl opts),
       headCSS = None \<rparr>\<close>

definition inviteMessage :: \<open>imported \<Rightarrow> invite_opts \<Rightarrow> email_send_options\<close> where
  \<open>inviteMessage I opts =
     \<lparr> data_to = i_to opts,
       title = actorName opts @ '' invited you to join '' @ teamName opts @ rsquo @
               ''s knowledge base'',
       previewText = Some ''Outline is a place for your team to build and share knowledge.'',
       data_text = inviteEmailText I opts,
       data_html = InviteEmail opts,
       headCSS = None \<rparr>\<close>

definition signinMessage :: \<open>imported \<Rightarrow> signin_opts \<Rightarrow> email_send_options\<close> where
  \<open>signinMessage I opts =
     \<lparr> data_to = s_to opts,
       title = ''Magic signin link'',
       previewText = Some (''Here'' @ rsquo @ ''s your link to signin to Outline.''),
       data_text = signinEmailText I opts,
       data_html = SigninEmail opts,
       headCSS = None \<rparr>\<close>

definition documentNotificationMessage ::
  \<open>imported \<Rightarrow> document_notification_opts \<Rightarrow> email_send_options\<close> where
  \<open>documentNotificationMessage I opts =
     \<lparr> data_to = d_to opts,
       title = ldquo @ document_title opts @ rdquo @ '' '' @ d_eventName opts,
       previewText = Some (d_actor_name opts @ '' '' @ d_eventName opts @ '' a new document''),
       data_text = documentNotificationEmailText I opts,
       data_html = DocumentNotificationEmail opts,
       headCSS = None \<rparr>\<close>

definition collectionNotificationMessage ::
  \<open>imported \<Rightarrow> collection_notification_opts \<Rightarrow> email_send_options\<close> where
  \<open>collectionNotificationMessage I opts =
     \<lparr> data_to = c_to opts,
       title = ldquo @ collection_name opts @ rdquo @ '' '' @ c_eventName opts,
       previewText = Some (c_actor_name opts @ '' '' @ c_eventName opts @ '' a collection''),
       data_text = collectionNotificationEmailText I opts,
       data_html = CollectionNotificationEmail opts,
       headCSS = None \<rparr>\<close>

definition unawaited :: \<open>unit promise \<times> event list \<Rightarrow> dispatch\<close> where
  \<open>unawaited r = \<lparr> returned = Resolved (), detached = fst r, effects = snd r \<rparr>\<close>

text \<open>The dispatcher \<open>welcome\<close>; its name is reserved here, hence the suffix.\<close>

definition welcome_mail :: \<open>imported \<Rightarrow> env \<Rightarrow> mailer \<Rightarrow> team_opts \<Rightarrow> dispatch\<close> where
  \<open>welcome_mail I e m opts = unawaited (sendMail I e m (welcomeMessage I opts))\<close>

definition exportSuccess :: \<open>imported \<Rightarrow> env \<Rightarrow> mailer \<Rightarrow> export_success_opts \<Rightarrow> dispatch\<close> where
  \<open>exportSuccess I e m opts = unawaited (sendMail I e m (exportSuccessMessage I opts))\<close>

definition exportFailure :: \<open>imported \<Rightarrow> env \<Rightarrow> mailer \<Rightarrow> team_opts \<Rightarrow> dispatch\<close> where
  \<open>exportFailure I e m opts = unawaited (sendMail I e m (exportFailureMessage I opts))\<close>

definition invite :: \<open>imported \<Rightarrow> env \<Rightarrow> mailer \<Rightarrow> invite_opts \<Rightarrow> dispatch\<close> where
  \<open>invite I e m opts = unawaited (sendMail I e m (inviteMessage I opts))\<close>

definition signin :: \<open>imported \<Rightarrow> env \<Rightarrow> mailer \<Rightarrow> signin_opts \<Rightarrow> dispatch\<close> where
  \<open>signin I e m opts = unawaited (sendMail I e m (signinMessage I opts))\<close>

definition documentNotification ::
  \<open>imported \<Rightarrow> env \<Rightarrow> mailer \<Rightarrow> document_notification_opts \<Rightarrow> dispatch\<close> where
  \<open>documentNotification I e m opts =
     unawaited (sendMail I e m (documentNotificationMessage I opts))\<close>

definition collectionNotification ::
  \<open>imported \<Rightarrow> env \<Rightarrow> mailer \<Rightarrow> collection_notification_opts \<Rightarrow> dispatch\<close> where
  \<open>collectionNotification I e m opts =
     unawaited (sendMail I e m (collectionNotificationMessage I opts))\<close>

subsection \<open>sendTemplate\<close>

text \<open>
  The type \<open>EmailTypes\<close> of the first parameter is a Flow annotation, erased before the
  code runs: at run time the parameter is a string. The second parameter defaults to the
  empty object.
\<close>

definition EmailTypes :: \<open>string list\<close> where
  \<open>EmailTypes = [''welcome'', ''export'', ''invite'', ''signin'']\<close>

definition dispatcherNames :: \<open>string list\<close> where
  \<open>dispatcherNames =
     [''welcome'', ''exportSuccess'', ''exportFailure'', ''invite'', ''signin'',
      ''documentNotification'', ''collectionNotification'']\<close>

definition queueOptions :: job_options where
  \<open>queueOptions =
     \<lparr> attempts = 5,
       removeOnComplete = True,
       backoff = \<lparr> backoff_type = ''exponential'', delay = 60 * 1000 \<rparr> \<rparr>\<close>

definition sendTemplate ::
  \<open>imported \<Rightarrow> string \<Rightarrow> jsobject option \<Rightarrow> unit promise \<times> event list\<close> where
  \<open>sendTemplate I type opts =
     (let j = \<lparr> job_type = type,
                job_opts = (case opts of None \<Rightarrow> [] | Some obj \<Rightarrow> obj) \<rparr>
      in case emailsQueue_add I j queueOptions of
           Inl err \<Rightarrow> (Rejected err, [QueueAdd j queueOptions])
         | Inr u \<Rightarrow> (Resolved (), [QueueAdd j queueOptions]))\<close>

section \<open>Observing the calls\<close>

text \<open>
  Projections of a list of calls: the envelopes handed to the transport, the exceptions
  handed to Sentry, the templates rendered and the jobs handed to the queue.
\<close>

fun sent :: \<open>event list \<Rightarrow> envelope list\<close> where
  \<open>sent [] = []\<close>
| \<open>sent (TransportSendMail v # es) = v # sent es\<close>
| \<open>sent (_ # es) = sent es\<close>

fun reported :: \<open>event list \<Rightarrow> exn list\<close> where
  \<open>reported [] = []\<close>
| \<open>reported (CaptureException err # es) = err # reported es\<close>
| \<open>reported (_ # es) = reported es\<close>

fun rendered :: \<open>event list \<Rightarrow> (element \<times> render_options) list\<close> where
  \<open>rendered [] = []\<close>
| \<open>rendered (RenderTemplate el ro # es) = (el, ro) # rendered es\<close>
| \<open>rendered (_ # es) = rendered es\<close>

fun enqueued :: \<open>event list \<Rightarrow> (job \<times> job_options) list\<close> where
  \<open>enqueued [] = []\<close>
| \<open>enqueued (QueueAdd j jo # es) = (j, jo) # enqueued es\<close>
| \<open>enqueued (_ # es) = enqueued es\<close>

section \<open>Sample collaborators\<close>

text \<open>
  Concrete imports, transports and messages at which the theorems below are instantiated:
  a transport that always delivers, one that always raises, a renderer that always
  succeeds, a sandbox provider that is unreachable and a queue that accepts every job.
\<close>

definition workingTransport :: transport where
  \<open>workingTransport v = Inr (Info ''250 OK'')\<close>

definition failingTransport :: transport where
  \<open>failingTransport v = Inl (Error ''ECONNREFUSED'')\<close>

definition sampleImports :: imported where
  \<open>sampleImports =
     \<lparr> createTransport = (\<lambda>c. Inr workingTransport),
       createTestAccount = Inl (Error ''ENOTFOUND''),
       getTestMessageUrl = (\<lambda>i. ''https://ethereal.email/message/1''),
       renderTemplate = (\<lambda>el ro. Inr ''<html></html>''),
       baseStyles = ''body { margin: 0 }'',
       welcomeEmailText = (\<lambda>opts. ''Welcome''),
       exportEmailSuccessText = ''Export ready'',
       exportEmailFailureText = ''Export failed'',
       inviteEmailText = (\<lambda>opts. ''Join '' @ teamName opts),
       signinEmailText = (\<lambda>opts. ''Sign in''),
       documentNotificationEmailText = (\<lambda>opts. document_title opts),
       collectionNotificationEmailText = (\<lambda>opts. collection_name opts),
       emailsQueue_add = (\<lambda>j jo. Inr ()) \<rparr>\<close>

definition sentryEnv :: env where
  \<open>sentryEnv = [''SENTRY_DSN'' \<mapsto> ''https://key@sentry.example/1'']\<close>

definition smtpEnv :: env where
  \<open>smtpEnv =
     [''SMTP_HOST'' \<mapsto> ''smtp.acme.example'',
      ''SMTP_PORT'' \<mapsto> ''465'',
      ''SMTP_USERNAME'' \<mapsto> ''mailer'',
      ''SMTP_PASSWORD'' \<mapsto> ''secret'',
      ''SMTP_FROM_EMAIL'' \<mapsto> ''hello@acme.example'',
      ''NODE_ENV'' \<mapsto> ''production'']\<close>

definition devEnv :: env where
  \<open>devEnv = [''NODE_ENV'' \<mapsto> ''development'']\<close>

definition janeInvite :: invite_opts where
  \<open>janeInvite = \<lparr> i_to = ''a@x.com'', actorName = ''Jane'', teamName = ''Acme'' \<rparr>\<close>

definition sampleMessage :: email_send_options where
  \<open>sampleMessage =
     \<lparr> data_to = ''a@x.com'',
       title = ''Hello'',
       previewText = None,
       data_text = ''Hello there'',
       data_html = ExportFailureEmail ''https://acme.example'',
       headCSS = Some ''p { color: red }'' \<rparr>\<close>

section \<open>What sendMail hands to the transport\<close>

lemma sent_sendMail:
  \<open>sent (snd (sendMail I e m d)) =
     (case transporter m of
        None \<Rightarrow> []
      | Some t \<Rightarrow>
          (case renderTemplate I (data_html d) (renderOptions I d) of
             Inl err \<Rightarrow> []
           | Inr html \<Rightarrow> [mailEnvelope e d html]))\<close>
  by (simp add: sendMail_def Let_def split: option.split sum.split)

section \<open>sendMail without a transport\<close>

text \<open>
  C1. For every message, when the transporter is not set, \<open>sendMail\<close> resolves and makes
  no call at all: it does not raise, and nothing is handed to a transport.
\<close>

theorem sendMail_no_transporter:
  assumes \<open>transporter m = None\<close>
  shows \<open>sendMail I e m d = (Resolved (), []) \<and> sent (snd (sendMail I e m d)) = []\<close>
  using assms by (simp add: sendMail_def)

theorem sendMail_no_transporter_witness:
  \<open>transporter \<lparr> transporter = None \<rparr> = None \<and>
   sendMail sampleImports sentryEnv \<lparr> transporter = None \<rparr> sampleMessage =
     (Resolved (), [])\<close>
proof -
  have unset: \<open>transporter \<lparr> transporter = None \<rparr> = None\<close>
    by simp
  from sendMail_no_transporter [OF unset] show ?thesis
    by simp
qed

section \<open>sendMail when the transport raises\<close>

text \<open>
  C2, as stated: whenever the transport's send call raises, the exception is reported
  exactly once. The report is guarded by \<open>SENTRY_DSN\<close>: in an environment without it the
  send is attempted, the failure is propagated, and nothing is reported.
\<close>

theorem sendMail_report_counterexample:
  \<open>sent (snd (sendMail sampleImports Map.empty
            \<lparr> transporter = Some failingTransport \<rparr> sampleMessage)) \<noteq> [] \<and>
   fst (sendMail sampleImports Map.empty
            \<lparr> transporter = Some failingTransport \<rparr> sampleMessage) =
     Rejected (Error ''ECONNREFUSED'') \<and>
   reported (snd (sendMail sampleImports Map.empty
            \<lparr> transporter = Some failingTransport \<rparr> sampleMessage)) = []\<close>
  by (simp add: sendMail_def sampleImports_def failingTransport_def truthy_def)

text \<open>
  C2, amended. When the transporter is set, the template renders and the transport's send
  call raises \<open>err\<close>, \<open>sendMail\<close> rejects with the same \<open>err\<close>; it reports \<open>err\<close> to Sentry
  exactly once if \<open>SENTRY_DSN\<close> is set to a non-empty value, and not at all otherwise. The
  report, when made, is the last call, after the send.
\<close>

theorem sendMail_transport_raises:
  assumes \<open>transporter m = Some t\<close>
    and \<open>renderTemplate I (data_html d) (renderOptions I d) = Inr html\<close>
    and \<open>t (mailEnvelope e d html) = Inl err\<close>
  shows \<open>fst (sendMail I e m d) = Rejected err \<and>
         reported (snd (sendMail I e m d)) =
           (if truthy (e ''SENTRY_DSN'') then [err] else []) \<and>
         (if truthy (e ''SENTRY_DSN'')
          then last (snd (sendMail I e m d)) = CaptureException err
          else last (snd (sendMail I e m d)) = TransportSendMail (mailEnvelope e d html))\<close>
  using assms by (simp add: sendMail_def)

theorem sendMail_transport_raises_witness:
  \<open>fst (sendMail sampleImports sentryEnv
          \<lparr> transporter = Some failingTransport \<rparr> sampleMessage) =
     Rejected (Error ''ECONNREFUSED'') \<and>
   reported (snd (sendMail sampleImports sentryEnv
          \<lparr> transporter = Some failingTransport \<rparr> sampleMessage)) =
     [Error ''ECONNREFUSED'']\<close>
proof -
  let ?m = \<open>\<lparr> transporter = Some failingTransport \<rparr>\<close>
  have has_transport: \<open>transporter ?m = Some failingTransport\<close>
    by simp
  have renders: \<open>renderTemplate sampleImports (data_html sampleMessage)
                   (renderOptions sampleImports sampleMessage) = Inr ''<html></html>''\<close>
    by (simp add: sampleImports_def)
  have raises: \<open>failingTransport (mailEnvelope sentryEnv sampleMessage ''<html></html>'') =
                 Inl (Error ''ECONNREFUSED'')\<close>
    by (simp add: failingTransport_def)
  have dsn: \<open>truthy (sentryEnv ''SENTRY_DSN'')\<close>
    by (simp add: sentryEnv_def truthy_def)
  from sendMail_transport_raises [OF has_transport renders raises] dsn show ?thesis
    by simp
qed

section \<open>sendTemplate\<close>

text \<open>
  C3. For every type and options, \<open>sendTemplate\<close> makes exactly one call, the queue's
  \<open>add\<close>, with the job \<open>{type, opts}\<close> and these options: 5 attempts, the job removed on
  completion, exponential backoff with a delay of 60000 milliseconds, that is 60 seconds.
\<close>

theorem sendTemplate_retry_policy:
  \<open>enqueued (snd (sendTemplate I type opts)) =
     [(\<lparr> job_type = type, job_opts = (case opts of None \<Rightarrow> [] | Some obj \<Rightarrow> obj) \<rparr>,
       \<lparr> attempts = 5,
         removeOnComplete = True,
         backoff = \<lparr> backoff_type = ''exponential'', delay = 60000 \<rparr> \<rparr>)] \<and>
   length (snd (sendTemplate I type opts)) = 1 \<and>
   delay (backoff queueOptions) = 60 * 1000\<close>
  by (simp add: sendTemplate_def queueOptions_def Let_def split: sum.split)

text \<open>
  C5, as stated: a request whose type is not a known one is never enqueued. The type
  \<open>bogus\<close> is neither in \<open>EmailTypes\<close> nor the name of a dispatcher, and the request is
  handed to the queue and the promise resolves.
\<close>

theorem sendTemplate_unknown_type_counterexample:
  \<open>''bogus'' \<notin> set EmailTypes \<and> ''bogus'' \<notin> set dispatcherNames \<and>
   sendTemplate sampleImports ''bogus'' None =
     (Resolved (), [QueueAdd \<lparr> job_type = ''bogus'', job_opts = [] \<rparr> queueOptions])\<close>
  by (simp add: sendTemplate_def sampleImports_def EmailTypes_def dispatcherNames_def)

text \<open>
  C5, amended. \<open>sendTemplate\<close> does not inspect the type: for every string, known or not,
  the request is handed to the queue with that type unchanged, and the promise settles as
  the queue's \<open>add\<close> does, rejecting only with the queue's own exception.
\<close>

theorem sendTemplate_any_type:
  \<open>map (job_type \<circ> fst) (enqueued (snd (sendTemplate I type opts))) = [type] \<and>
   fst (sendTemplate I type opts) =
     (case emailsQueue_add I
             \<lparr> job_type = type, job_opts = (case opts of None \<Rightarrow> [] | Some obj \<Rightarrow> obj) \<rparr>
             queueOptions of
        Inl err \<Rightarrow> Rejected err
      | Inr u \<Rightarrow> Resolved ())\<close>
  by (simp add: sendTemplate_def Let_def split: sum.split)

section \<open>Rendering\<close>

text \<open>
  C10. \<open>sendMail\<close> renders the template only when a transporter exists: without one no
  render call is made; with one, exactly one is made, on the message's element, with the
  title, the base stylesheet joined by a space with the message's style override, and the
  preview text.
\<close>

theorem sendMail_renders_only_with_transporter:
  \<open>rendered (snd (sendMail I e m d)) =
     (case transporter m of
        None \<Rightarrow> []
      | Some t \<Rightarrow>
          [(data_html d,
            \<lparr> oy_title = title d,
              oy_headCSS = baseStyles I @ '' '' @ (case headCSS d of None \<Rightarrow> [] | Some s \<Rightarrow> s),
              oy_previewText = previewText d \<rparr>)])\<close>
  by (simp add: sendMail_def renderOptions_def joinCSS_def Let_def
           split: option.split sum.split)

section \<open>The invite dispatcher\<close>

text \<open>
  C4, as stated: the subject for actor \<open>Jane\<close> and team \<open>Acme\<close> is the string with the
  ASCII apostrophe U+0027 before the \<open>s\<close>. The template literal of the source has U+2019
  there, so the title differs from that string, and the differing title is the subject
  handed to the transport.
\<close>

theorem invite_subject_counterexample:
  \<open>actorName janeInvite = ''Jane'' \<and> teamName janeInvite = ''Acme'' \<and>
   title (inviteMessage sampleImports janeInvite) \<noteq>
     ''Jane invited you to join Acme's knowledge base'' \<and>
   map mail_subject
     (sent (effects (invite sampleImports Map.empty
                       \<lparr> transporter = Some workingTransport \<rparr> janeInvite))) =
     [title (inviteMessage sampleImports janeInvite)]\<close>
  by (simp add: janeInvite_def inviteMessage_def rsquo_def invite_def unawaited_def
        sendMail_def sampleImports_def workingTransport_def mailEnvelope_def
        useTestEmailService_def)

text \<open>
  C4, amended. The subject is the actor's name, \<open> invited you to join \<close>, the team's name,
  the character U+2019 and \<open>s knowledge base\<close>; for \<open>Jane\<close> and \<open>Acme\<close> it is
  \<open>Jane invited you to join Acme\<close>, U+2019, \<open>s knowledge base\<close>. Every envelope the
  invite dispatcher hands to the transport carries that subject.
\<close>

theorem invite_subject:
  \<open>title (inviteMessage I \<lparr> i_to = r, actorName = ''Jane'', teamName = ''Acme'' \<rparr>) =
     ''Jane invited you to join Acme'' @ rsquo @ ''s knowledge base'' \<and>
   (\<forall>v \<in> set (sent (effects (invite I e m opts))).
      mail_subject v =
        actorName opts @ '' invited you to join '' @ teamName opts @ rsquo @
        ''s knowledge base'')\<close>
proof (intro conjI ballI)
  show \<open>title (inviteMessage I \<lparr> i_to = r, actorName = ''Jane'', teamName = ''Acme'' \<rparr>) =
          ''Jane invited you to join Acme'' @ rsquo @ ''s knowledge base''\<close>
    by (simp add: inviteMessage_def)
next
  fix v
  assume \<open>v \<in> set (sent (effects (invite I e m opts)))\<close>
  then have \<open>v \<in> set (sent (snd (sendMail I e m (inviteMessage I opts))))\<close>
    by (simp add: invite_def unawaited_def)
  then obtain html where \<open>v = mailEnvelope e (inviteMessage I opts) html\<close>
    by (auto simp: sent_sendMail split: option.splits sum.splits)
  then show \<open>mail_subject v =
      actorName opts @ '' invited you to join '' @ teamName opts @ rsquo @
      ''s knowledge base''\<close>
    by (simp add: mailEnvelope_def inviteMessage_def)
qed

theorem invite_subject_witness:
  \<open>mailEnvelope Map.empty (inviteMessage sampleImports janeInvite) ''<html></html>''
     \<in> set (sent (effects (invite sampleImports Map.empty
                              \<lparr> transporter = Some workingTransport \<rparr> janeInvite))) \<and>
   mail_subject (mailEnvelope Map.empty (inviteMessage sampleImports janeInvite)
                   ''<html></html>'') =
     ''Jane invited you to join Acme'' @ rsquo @ ''s knowledge base''\<close>
proof -
  let ?v = \<open>mailEnvelope Map.empty (inviteMessage sampleImports janeInvite) ''<html></html>''\<close>
  let ?m = \<open>\<lparr> transporter = Some workingTransport \<rparr>\<close>
  have handed: \<open>?v \<in> set (sent (effects (invite sampleImports Map.empty ?m janeInvite)))\<close>
    by (simp add: invite_def unawaited_def sendMail_def sampleImports_def
          workingTransport_def useTestEmailService_def)
  from invite_subject [of sampleImports undefined Map.empty ?m janeInvite]
  have \<open>\<forall>v \<in> set (sent (effects (invite sampleImports Map.empty ?m janeInvite))).
          mail_subject v =
            actorName janeInvite @ '' invited you to join '' @ teamName janeInvite @ rsquo @
            ''s knowledge base''\<close>
    by (rule conjunct2)
  from this handed have \<open>mail_subject ?v =
      actorName janeInvite @ '' invited you to join '' @ teamName janeInvite @ rsquo @
      ''s knowledge base''\<close>
    by (rule bspec)
  with handed show ?thesis
    by (simp add: janeInvite_def)
qed

section \<open>Resolving the transport\<close>

text \<open>
  C6. When \<open>SMTP_HOST\<close> is set to a non-empty value, \<open>loadTransport\<close> makes one call,
  \<open>createTransport\<close>, with a configuration whose host is that value and whose port is
  \<open>SMTP_PORT\<close>. Its \<open>secure\<close> flag is the override \<open>SMTP_SECURE === "true"\<close> when
  \<open>SMTP_SECURE\<close> is present, and otherwise is true exactly in production. It has \<open>auth\<close>
  exactly when \<open>SMTP_USERNAME\<close> is set to a non-empty value, then with that user and the
  password \<open>SMTP_PASSWORD\<close>. It has \<open>tls\<close> exactly when \<open>SMTP_TLS_CIPHERS\<close> is present,
  then with those ciphers. The transport built is stored in the mailer.
\<close>

theorem loadTransport_smtp_host:
  assumes \<open>e ''SMTP_HOST'' = Some h\<close> and \<open>h \<noteq> []\<close>
  shows \<open>\<exists>cfg.
           snd (snd (loadTransport I e m)) = [CreateTransport cfg] \<and>
           host cfg = h \<and>
           port cfg = map_option PortString (e ''SMTP_PORT'') \<and>
           secure cfg =
             (if present ''SMTP_SECURE'' e then e ''SMTP_SECURE'' = Some ''true''
              else e ''NODE_ENV'' = Some ''production'') \<and>
           (auth cfg \<noteq> None) = truthy (e ''SMTP_USERNAME'') \<and>
           auth cfg =
             (if truthy (e ''SMTP_USERNAME'')
              then Some \<lparr> user = the (e ''SMTP_USERNAME''), pass = e ''SMTP_PASSWORD'' \<rparr>
              else None) \<and>
           (tls cfg \<noteq> None) = present ''SMTP_TLS_CIPHERS'' e \<and>
           tls cfg = map_option (\<lambda>c. \<lparr> ciphers = c \<rparr>) (e ''SMTP_TLS_CIPHERS'') \<and>
           fst (snd (loadTransport I e m)) =
             (case createTransport I cfg of
                Inl err \<Rightarrow> m
              | Inr t \<Rightarrow> m\<lparr>transporter := Some t\<rparr>)\<close>
proof (intro exI conjI)
  show \<open>snd (snd (loadTransport I e m)) = [CreateTransport (smtpConfig e h)]\<close>
    using assms by (simp add: loadTransport_def split: sum.split)
  show \<open>fst (snd (loadTransport I e m)) =
          (case createTransport I (smtpConfig e h) of
             Inl err \<Rightarrow> m
           | Inr t \<Rightarrow> m\<lparr>transporter := Some t\<rparr>)\<close>
    using assms by (simp add: loadTransport_def split: sum.split)
qed (simp_all add: smtpConfig_def truthy_def present_def split: option.split)

theorem loadTransport_smtp_host_witness:
  \<open>smtpEnv ''SMTP_HOST'' = Some ''smtp.acme.example'' \<and>
   (\<exists>cfg. snd (snd (loadTransport sampleImports smtpEnv \<lparr> transporter = None \<rparr>)) =
            [CreateTransport cfg] \<and>
          host cfg = ''smtp.acme.example'' \<and>
          secure cfg \<and>
          auth cfg = Some \<lparr> user = ''mailer'', pass = Some ''secret'' \<rparr> \<and>
          tls cfg = None)\<close>
proof -
  have configured: \<open>smtpEnv ''SMTP_HOST'' = Some ''smtp.acme.example''\<close>
    by (simp add: smtpEnv_def)
  have nonempty: \<open>''smtp.acme.example'' \<noteq> []\<close>
    by simp
  have vars: \<open>\<not> present ''SMTP_SECURE'' smtpEnv\<close>
    \<open>smtpEnv ''NODE_ENV'' = Some ''production''\<close>
    \<open>truthy (smtpEnv ''SMTP_USERNAME'')\<close>
    \<open>smtpEnv ''SMTP_USERNAME'' = Some ''mailer''\<close>
    \<open>smtpEnv ''SMTP_PASSWORD'' = Some ''secret''\<close>
    \<open>smtpEnv ''SMTP_TLS_CIPHERS'' = None\<close>
    by (simp_all add: smtpEnv_def present_def truthy_def)
  from loadTransport_smtp_host
         [of smtpEnv \<open>''smtp.acme.example''\<close> sampleImports \<open>\<lparr> transporter = None \<rparr>\<close>,
          OF configured nonempty]
  obtain cfg where
    \<open>snd (snd (loadTransport sampleImports smtpEnv \<lparr> transporter = None \<rparr>)) =
       [CreateTransport cfg]\<close>
    \<open>host cfg = ''smtp.acme.example''\<close>
    \<open>secure cfg =
       (if present ''SMTP_SECURE'' smtpEnv then smtpEnv ''SMTP_SECURE'' = Some ''true''
        else smtpEnv ''NODE_ENV'' = Some ''production'')\<close>
    \<open>auth cfg =
       (if truthy (smtpEnv ''SMTP_USERNAME'')
        then Some \<lparr> user = the (smtpEnv ''SMTP_USERNAME''), pass = smtpEnv ''SMTP_PASSWORD'' \<rparr>
        else None)\<close>
    \<open>tls cfg = map_option (\<lambda>c. \<lparr> ciphers = c \<rparr>) (smtpEnv ''SMTP_TLS_CIPHERS'')\<close>
    by blast
  with vars have \<open>snd (snd (loadTransport sampleImports smtpEnv \<lparr> transporter = None \<rparr>)) =
       [CreateTransport cfg] \<and>
     host cfg = ''smtp.acme.example'' \<and> secure cfg \<and>
     auth cfg = Some \<lparr> user = ''mailer'', pass = Some ''secret'' \<rparr> \<and> tls cfg = None\<close>
    by simp
  with configured show ?thesis
    by blast
qed

section \<open>The envelope\<close>

text \<open>
  C7. When the transporter is set and the template renders to \<open>html\<close>, \<open>sendMail\<close> hands
  exactly one envelope to the transport. Its reply-to address is \<open>SMTP_REPLY_EMAIL\<close> when
  that is set to a non-empty value and \<open>SMTP_FROM_EMAIL\<close> otherwise; its from-address is
  \<open>SMTP_FROM_EMAIL\<close>; recipient, subject and text are those of the message, and its html
  is the rendering of the message's element.
\<close>

theorem sendMail_envelope:
  assumes \<open>transporter m = Some t\<close>
    and \<open>renderTemplate I (data_html d) (renderOptions I d) = Inr html\<close>
  shows \<open>sent (snd (sendMail I e m d)) =
           [\<lparr> mail_from = e ''SMTP_FROM_EMAIL'',
              mail_replyTo =
                (if truthy (e ''SMTP_REPLY_EMAIL'') then e ''SMTP_REPLY_EMAIL''
                 else e ''SMTP_FROM_EMAIL''),
              mail_to = data_to d,
              mail_subject = title d,
              mail_html = html,
              mail_text = data_text d \<rparr>]\<close>
  using assms by (simp add: sent_sendMail mailEnvelope_def or_else_def)

theorem sendMail_envelope_witness:
  \<open>map mail_replyTo
     (sent (snd (sendMail sampleImports smtpEnv
                   \<lparr> transporter = Some workingTransport \<rparr> sampleMessage))) =
     [Some ''hello@acme.example''] \<and>
   map mail_replyTo
     (sent (snd (sendMail sampleImports (smtpEnv(''SMTP_REPLY_EMAIL'' \<mapsto> ''help@acme.example''))
                   \<lparr> transporter = Some workingTransport \<rparr> sampleMessage))) =
     [Some ''help@acme.example'']\<close>
proof -
  let ?m = \<open>\<lparr> transporter = Some workingTransport \<rparr>\<close>
  let ?e = \<open>smtpEnv(''SMTP_REPLY_EMAIL'' \<mapsto> ''help@acme.example'')\<close>
  have has_transport: \<open>transporter ?m = Some workingTransport\<close>
    by simp
  have renders: \<open>renderTemplate sampleImports (data_html sampleMessage)
                   (renderOptions sampleImports sampleMessage) = Inr ''<html></html>''\<close>
    by (simp add: sampleImports_def)
  have fallback: \<open>\<not> truthy (smtpEnv ''SMTP_REPLY_EMAIL'')\<close>
    \<open>smtpEnv ''SMTP_FROM_EMAIL'' = Some ''hello@acme.example''\<close>
    by (simp_all add: smtpEnv_def truthy_def)
  have override: \<open>truthy (?e ''SMTP_REPLY_EMAIL'')\<close>
    \<open>?e ''SMTP_REPLY_EMAIL'' = Some ''help@acme.example''\<close>
    by (simp_all add: truthy_def)
  from sendMail_envelope [OF has_transport renders, of smtpEnv] fallback
  have first: \<open>map mail_replyTo (sent (snd (sendMail sampleImports smtpEnv ?m sampleMessage))) =
                [Some ''hello@acme.example'']\<close>
    by simp
  from sendMail_envelope [OF has_transport renders, of ?e] override
  have second: \<open>map mail_replyTo (sent (snd (sendMail sampleImports ?e ?m sampleMessage))) =
                 [Some ''help@acme.example'']\<close>
    by simp
  from first second show ?thesis
    by (rule conjI)
qed

section \<open>The sandbox mailbox\<close>

text \<open>
  C8. In development, with \<open>SMTP_HOST\<close> and \<open>SMTP_USERNAME\<close> not set to non-empty values,
  when creating the test account raises \<open>err\<close>: \<open>loadTransport\<close> resolves, logs the
  failure with the message of \<open>err\<close>, and leaves the mailer as it was. For the mailer the
  constructor builds, the transporter stays unset, so every later \<open>sendMail\<close> resolves
  without making a call.
\<close>

theorem loadTransport_test_account_failure:
  assumes \<open>\<not> truthy (e ''SMTP_HOST'')\<close>
    and \<open>useTestEmailService e\<close>
    and \<open>createTestAccount I = Inl err\<close>
  shows \<open>loadTransport I e m =
           (Resolved (), m,
            [Log (''SMTP_USERNAME not provided, generating test account'' @ hellip),
             CreateTestAccount,
             Log (''Could not generate test account: '' @ message err)]) \<and>
         transporter (fst (snd (Mailer I e))) = None \<and>
         sendMail I e (fst (snd (Mailer I e))) d = (Resolved (), [])\<close>
proof -
  have second_branch: \<open>loadTransport I e m = loadTestTransport I e m\<close> for m
    using assms(1) by (auto simp: loadTransport_def truthy_def split: option.splits)
  have logged: \<open>loadTestTransport I e m =
      (Resolved (), m,
       [Log (''SMTP_USERNAME not provided, generating test account'' @ hellip),
        CreateTestAccount,
        Log (''Could not generate test account: '' @ message err)])\<close> for m
    using assms(2,3) by (simp add: loadTestTransport_def)
  have unset: \<open>transporter (fst (snd (Mailer I e))) = None\<close>
    by (simp add: Mailer_def second_branch logged)
  then have \<open>sendMail I e (fst (snd (Mailer I e))) d = (Resolved (), [])\<close>
    by (simp add: sendMail_def)
  with unset show ?thesis
    by (simp add: second_branch logged)
qed

theorem loadTransport_test_account_failure_witness:
  \<open>useTestEmailService devEnv \<and>
   createTestAccount sampleImports = Inl (Error ''ENOTFOUND'') \<and>
   Mailer sampleImports devEnv =
     (Resolved (), \<lparr> transporter = None \<rparr>,
      [Log (''SMTP_USERNAME not provided, generating test account'' @ hellip),
       CreateTestAccount,
       Log ''Could not generate test account: ENOTFOUND'']) \<and>
   sendMail sampleImports devEnv (fst (snd (Mailer sampleImports devEnv))) sampleMessage =
     (Resolved (), [])\<close>
proof -
  have no_host: \<open>\<not> truthy (devEnv ''SMTP_HOST'')\<close>
    by (simp add: devEnv_def truthy_def)
  have dev: \<open>useTestEmailService devEnv\<close>
    by (simp add: useTestEmailService_def devEnv_def truthy_def)
  have unreachable: \<open>createTestAccount sampleImports = Inl (Error ''ENOTFOUND'')\<close>
    by (simp add: sampleImports_def)
  note failure =
    loadTransport_test_account_failure
      [OF no_host dev unreachable, of \<open>\<lparr> transporter = None \<rparr>\<close> sampleMessage]
  from failure have \<open>loadTransport sampleImports devEnv \<lparr> transporter = None \<rparr> =
      (Resolved (), \<lparr> transporter = None \<rparr>,
       [Log (''SMTP_USERNAME not provided, generating test account'' @ hellip),
        CreateTestAccount,
        Log (''Could not generate test account: '' @ message (Error ''ENOTFOUND''))])\<close>
    by (rule conjunct1)
  then have built: \<open>Mailer sampleImports devEnv =
      (Resolved (), \<lparr> transporter = None \<rparr>,
       [Log (''SMTP_USERNAME not provided, generating test account'' @ hellip),
        CreateTestAccount,
        Log ''Could not generate test account: ENOTFOUND''])\<close>
    by (simp add: Mailer_def)
  from failure
  have noop: \<open>sendMail sampleImports devEnv (fst (snd (Mailer sampleImports devEnv)))
                sampleMessage = (Resolved (), [])\<close>
    by (rule conjunct2 [THEN conjunct2])
  from dev unreachable built noop show ?thesis
    by (intro conjI)
qed

section \<open>The dispatchers do not wait for delivery\<close>

text \<open>
  C9. Each of the seven dispatchers invokes \<open>sendMail\<close> on its message and does not wait
  for it: the calls the dispatcher makes are exactly those of that \<open>sendMail\<close>, the
  outcome of \<open>sendMail\<close> settles a promise that the dispatcher neither awaits nor
  returns, and the dispatcher's own promise resolves. A delivery failure therefore rejects
  the detached promise and never the dispatcher's own.
\<close>

theorem dispatchers_resolve:
  \<open>returned (welcome_mail I e m o1) = Resolved () \<and>
   detached (welcome_mail I e m o1) = fst (sendMail I e m (welcomeMessage I o1)) \<and>
   effects (welcome_mail I e m o1) = snd (sendMail I e m (welcomeMessage I o1)) \<and>
   returned (exportSuccess I e m o2) = Resolved () \<and>
   detached (exportSuccess I e m o2) = fst (sendMail I e m (exportSuccessMessage I o2)) \<and>
   effects (exportSuccess I e m o2) = snd (sendMail I e m (exportSuccessMessage I o2)) \<and>
   returned (exportFailure I e m o3) = Resolved () \<and>
   detached (exportFailure I e m o3) = fst (sendMail I e m (exportFailureMessage I o3)) \<and>
   effects (exportFailure I e m o3) = snd (sendMail I e m (exportFailureMessage I o3)) \<and>
   returned (invite I e m o4) = Resolved () \<and>
   detached (invite I e m o4) = fst (sendMail I e m (inviteMessage I o4)) \<and>
   effects (invite I e m o4) = snd (sendMail I e m (inviteMessage I o4)) \<and>
   returned (signin I e m o5) = Resolved () \<and>
   detached (signin I e m o5) = fst (sendMail I e m (signinMessage I o5)) \<and>
   effects (signin I e m o5) = snd (sendMail I e m (signinMessage I o5)) \<and>
   returned (documentNotification I e m o6) = Resolved () \<and>
   detached (documentNotification I e m o6) =
     fst (sendMail I e m (documentNotificationMessage I o6)) \<and>
   effects (documentNotification I e m o6) =
     snd (sendMail I e m (documentNotificationMessage I o6)) \<and>
   returned (collectionNotification I e m o7) = Resolved () \<and>
   detached (collectionNotification I e m o7) =
     fst (sendMail I e m (collectionNotificationMessage I o7)) \<and>
   effects (collectionNotification I e m o7) =
     snd (sendMail I e m (collectionNotificationMessage I o7))\<close>
  by (simp add: welcome_mail_def exportSuccess_def exportFailure_def invite_def signin_def
        documentNotification_def collectionNotification_def unawaited_def)

theorem dispatchers_resolve_witness:
  \<open>returned (invite sampleImports sentryEnv
               \<lparr> transporter = Some failingTransport \<rparr> janeInvite) = Resolved () \<and>
   detached (invite sampleImports sentryEnv
               \<lparr> transporter = Some failingTransport \<rparr> janeInvite) =
     Rejected (Error ''ECONNREFUSED'') \<and>
   sent (effects (invite sampleImports sentryEnv
                    \<lparr> transporter = Some failingTransport \<rparr> janeInvite)) =
     [mailEnvelope sentryEnv (inviteMessage sampleImports janeInvite) ''<html></html>''] \<and>
   reported (effects (invite sampleImports sentryEnv
                        \<lparr> transporter = Some failingTransport \<rparr> janeInvite)) =
     [Error ''ECONNREFUSED'']\<close>
proof -
  let ?m = \<open>\<lparr> transporter = Some failingTransport \<rparr>\<close>
  let ?d = \<open>inviteMessage sampleImports janeInvite\<close>
  have dsn: \<open>truthy (sentryEnv ''SENTRY_DSN'')\<close>
    by (simp add: sentryEnv_def truthy_def)
  have fails: \<open>fst (sendMail sampleImports sentryEnv ?m ?d) = Rejected (Error ''ECONNREFUSED'')\<close>
    by (simp add: sendMail_def sampleImports_def failingTransport_def)
  have handed: \<open>sent (snd (sendMail sampleImports sentryEnv ?m ?d)) =
                 [mailEnvelope sentryEnv ?d ''<html></html>'']\<close>
    by (simp add: sent_sendMail sampleImports_def)
  have told: \<open>reported (snd (sendMail sampleImports sentryEnv ?m ?d)) = [Error ''ECONNREFUSED'']\<close>
    using dsn by (simp add: sendMail_def sampleImports_def failingTransport_def)
  from dispatchers_resolve [of sampleImports sentryEnv ?m _ _ _ janeInvite] fails handed told
  show ?thesis
    by simp
qed

end
